theory Spec2Isabelle
  imports Complex_Main "HOL-Library.Sublist" "HOL-Library.Word"
begin

section \<open>The image browser of main.cpp\<close>

text \<open>
  The program is one C++ file. The functions modelled here are \<open>getDataPath\<close>,
  \<open>EndsWith\<close>, \<open>GetImageFiles\<close> and \<open>ShowImageSubwindow\<close>. Everything they
  ask of the outside world (the file system, the image decoder, the texture allocator, the
  buttons of the current frame) is a field of an explicit environment record, and everything
  they do to the outside world is an entry of an event trace, in program order.
\<close>

text \<open>
  A call that does not return normally ends in a fault: a read of
  \<open>image_files[current_image_index]\<close> past the end of the vector (undefined
  behaviour), or a \<open>std::filesystem::filesystem_error\<close> thrown by a file system query.
  The program has no \<open>try\<close> block, so an exception leaves every function on its way.
\<close>

datatype fault = VectorIndexOutOfRange | FilesystemError

subsection \<open>Paths and the file system\<close>

text \<open>
  A path is its native string. \<open>path_append p name\<close> is \<open>p / name\<close> of
  \<open>std::filesystem::path\<close> for a relative \<open>name\<close>: a separator is put between
  the two unless \<open>p\<close> is empty or already ends in one.
\<close>

definition path_append :: "string \<Rightarrow> string \<Rightarrow> string" where
  "path_append p name =
     (if p = [] then name
      else if last p = CHR ''/'' then p @ name
      else p @ ''/'' @ name)"

text \<open>
  The code calls the throwing overloads of the \<open>std::filesystem\<close> queries. A query
  answers \<open>Some b\<close>, or it is \<open>None\<close>: the call throws (the path cannot be
  examined: no permission, a name that is too long, an input/output error).
  An entry of a directory has its file name and the answer of its \<open>is_regular_file()\<close>.
\<close>

record dir_entry =
  entry_name :: string
  is_regular_file :: "bool option"

text \<open>
  \<open>fs_exists\<close> and \<open>fs_is_directory\<close> are \<open>std::filesystem::exists\<close> and
  \<open>std::filesystem::is_directory\<close>. \<open>directory_iterator d\<close> is what iterating over
  \<open>d\<close> delivers, in enumeration order: \<open>Some entry\<close> for an entry (its path is
  \<open>d / name\<close>), \<open>None\<close> where the iterator throws (in its constructor when the
  directory cannot be opened, in its increment later); nothing behind a \<open>None\<close> is
  reached.
\<close>

record filesystem =
  fs_exists :: "string \<Rightarrow> bool option"
  fs_is_directory :: "string \<Rightarrow> bool option"
  directory_iterator :: "string \<Rightarrow> dir_entry option list"

text \<open>
  \<open>exists(p) && is_directory(p)\<close>, left to right: the second query is made only when the
  first answers true.
\<close>

definition is_dir :: "filesystem \<Rightarrow> string \<Rightarrow> fault + bool" where
  "is_dir fs p =
     (case fs_exists fs p of
        None \<Rightarrow> Inl FilesystemError
      | Some False \<Rightarrow> Inr False
      | Some True \<Rightarrow>
          (case fs_is_directory fs p of
             None \<Rightarrow> Inl FilesystemError
           | Some b \<Rightarrow> Inr b))"

text \<open>
  In words: a path is an existing directory when both queries answer true, and its
  examination fails when a query that is made throws.
\<close>

definition existing_directory :: "filesystem \<Rightarrow> string \<Rightarrow> bool" where
  "existing_directory fs p = (fs_exists fs p = Some True \<and> fs_is_directory fs p = Some True)"

definition examination_fails :: "filesystem \<Rightarrow> string \<Rightarrow> bool" where
  "examination_fails fs p =
     (fs_exists fs p = None \<or> (fs_exists fs p = Some True \<and> fs_is_directory fs p = None))"

subsection \<open>getDataPath\<close>

text \<open>
  \<open>executable_path\<close> is what \<open>_NSGetExecutablePath\<close> delivers (\<open>None\<close> when the
  call does not return 0), \<open>parent_path\<close> is the library function of that name and
  \<open>current_path\<close> the working directory (\<open>None\<close>: \<open>current_path()\<close> throws, as
  it does when the working directory has been removed).
\<close>

record path_env =
  executable_path :: "string option"
  parent_path :: "string \<Rightarrow> string"
  current_path :: "string option"
  files :: filesystem

definition systemPaths :: "string list" where
  "systemPaths =
     [''/usr/local/share/cmake_imgui_app_macos/data'',
      ''/opt/local/share/cmake_imgui_app_macos/data'',
      ''/usr/share/cmake_imgui_app_macos/data'']"

text \<open>The \<open>for\<close> loop over \<open>systemPaths\<close>, with the last resort as its exit value.\<close>

fun first_system_path :: "filesystem \<Rightarrow> string list \<Rightarrow> string \<Rightarrow> fault + string" where
  "first_system_path fs [] last_resort = Inr last_resort"
| "first_system_path fs (path # rest) last_resort =
     (case is_dir fs path of
        Inl f \<Rightarrow> Inl f
      | Inr found \<Rightarrow> if found then Inr path else first_system_path fs rest last_resort)"

text \<open>Lines 52 to 79: the priorities 2 to 4 and the last resort.\<close>

definition getDataPath_from_cwd :: "path_env \<Rightarrow> fault + string" where
  "getDataPath_from_cwd e =
     (case current_path e of
        None \<Rightarrow> Inl FilesystemError
      | Some cwd \<Rightarrow>
          (let cwdData = path_append cwd ''data'' in
           case is_dir (files e) cwdData of
             Inl f \<Rightarrow> Inl f
           | Inr found \<Rightarrow>
               if found then Inr cwdData
               else
                 (let execDir = cwd;
                      relativeData = path_append execDir ''data'' in
                  case is_dir (files e) relativeData of
                    Inl f \<Rightarrow> Inl f
                  | Inr found2 \<Rightarrow>
                      if found2 then Inr relativeData
                      else first_system_path (files e) systemPaths (path_append cwd ''data''))))"

text \<open>Lines 39 to 50 come first: the resources of the bundle the executable lies in.\<close>

definition getDataPath :: "path_env \<Rightarrow> fault + string" where
  "getDataPath e =
     (case executable_path e of
        Some execP \<Rightarrow>
          (let resources =
                 path_append
                   (path_append (parent_path e (parent_path e execP)) ''Resources'') ''data''
           in case is_dir (files e) resources of
                Inl f \<Rightarrow> Inl f
              | Inr found \<Rightarrow> if found then Inr resources else getDataPath_from_cwd e)
      | None \<Rightarrow> getDataPath_from_cwd e)"

text \<open>
  The fallback order in the words of the specification: the resource location of the
  packaged application (two levels above the executable, then \<open>Resources/data\<close>; there
  is none when the executable's path is not known), then \<open>data\<close> under the working
  directory, then the three system-wide locations. The search stops at the first candidate
  that is an existing directory or whose examination fails.
\<close>

definition bundle_location :: "path_env \<Rightarrow> string list" where
  "bundle_location e =
     (case executable_path e of
        Some execP \<Rightarrow>
          [path_append (parent_path e (parent_path e execP)) ''Resources/data'']
      | None \<Rightarrow> [])"

definition working_directory_locations :: "string \<Rightarrow> string list" where
  "working_directory_locations cwd =
     [path_append cwd ''data'',
      ''/usr/local/share/cmake_imgui_app_macos/data'',
      ''/opt/local/share/cmake_imgui_app_macos/data'',
      ''/usr/share/cmake_imgui_app_macos/data'']"

definition first_stop :: "filesystem \<Rightarrow> string list \<Rightarrow> string option" where
  "first_stop fs ps = find (\<lambda>p. existing_directory fs p \<or> examination_fails fs p) ps"

definition stop_result :: "filesystem \<Rightarrow> string \<Rightarrow> fault + string" where
  "stop_result fs p = (if examination_fails fs p then Inl FilesystemError else Inr p)"

subsection \<open>EndsWith and GetImageFiles\<close>

text \<open>
  \<open>str.compare(pos, len, suffix) == 0\<close> holds when the \<open>len\<close> characters of
  \<open>str\<close> from \<open>pos\<close> are \<open>suffix\<close> (written \<open>sfx\<close> here, the library
  has a constant \<open>suffix\<close>).
\<close>

definition EndsWith :: "string \<Rightarrow> string \<Rightarrow> bool" where
  "EndsWith str sfx =
     (length str \<ge> length sfx \<and>
      take (length sfx) (drop (length str - length sfx) str) = sfx)"

definition is_image_path :: "string \<Rightarrow> bool" where
  "is_image_path path =
     (EndsWith path ''.png'' \<or> EndsWith path ''.jpg'' \<or> EndsWith path ''.jpeg'')"

text \<open>The loop over the directory's entries; \<open>push_back\<close> appends at the end.\<close>

fun scan_entries ::
  "string \<Rightarrow> dir_entry option list \<Rightarrow> string list \<Rightarrow> fault + string list" where
  "scan_entries dirPath [] image_files = Inr image_files"
| "scan_entries dirPath (None # rest) image_files = Inl FilesystemError"
| "scan_entries dirPath (Some entry # rest) image_files =
     (case is_regular_file entry of
        None \<Rightarrow> Inl FilesystemError
      | Some regular \<Rightarrow>
          if regular then
            (let path = path_append dirPath (entry_name entry) in
             if is_image_path path then scan_entries dirPath rest (image_files @ [path])
             else scan_entries dirPath rest image_files)
          else scan_entries dirPath rest image_files)"

text \<open>
  Line 118 is \<open>!exists(dirPath) || !is_directory(dirPath)\<close>: the second query is made only
  when the directory exists.
\<close>

definition GetImageFiles :: "filesystem \<Rightarrow> string \<Rightarrow> fault + string list" where
  "GetImageFiles fs directory =
     (case fs_exists fs directory of
        None \<Rightarrow> Inl FilesystemError
      | Some ex \<Rightarrow>
          if \<not> ex then Inr []
          else
            (case fs_is_directory fs directory of
               None \<Rightarrow> Inl FilesystemError
             | Some isd \<Rightarrow>
                 if \<not> isd then Inr []
                 else scan_entries directory (directory_iterator fs directory) []))"

text \<open>The scanner in the words of the specification: a name with a recognised suffix.\<close>

definition recognized_suffixes :: "string list" where
  "recognized_suffixes = [''.png'', ''.jpg'', ''.jpeg'']"

definition has_recognized_suffix :: "string \<Rightarrow> bool" where
  "has_recognized_suffix name = list_ex (\<lambda>s. suffix s name) recognized_suffixes"

text \<open>
  The entries an iteration delivers, and whether the iteration fails: the iterator throws, or
  the \<open>is_regular_file()\<close> of an entry does.
\<close>

definition delivered_entries :: "dir_entry option list \<Rightarrow> dir_entry list" where
  "delivered_entries items = List.map_filter (\<lambda>i. i) items"

definition iteration_fails :: "dir_entry option list \<Rightarrow> bool" where
  "iteration_fails items =
     list_ex (\<lambda>i. case i of None \<Rightarrow> True | Some entry \<Rightarrow> is_regular_file entry = None) items"

subsection \<open>ShowImageSubwindow\<close>

text \<open>
  The function's \<open>static\<close> locals. There is one set of them for the whole program.
  \<open>current_image_index\<close> is a \<open>size_t\<close>; it is only ever incremented below a
  vector's size and decremented above 0, so it is modelled as a natural number.
  \<open>texture\<close> is a \<open>GLuint\<close>, with 0 for no texture.
\<close>

record statics =
  image_files :: "string list"
  last_directory :: string
  current_image_index :: nat
  texture :: "32 word"
  img_width :: int
  img_height :: int

definition initial_statics :: statics where
  "initial_statics =
     \<lparr>image_files = [], last_directory = [], current_image_index = 0,
      texture = 0, img_width = 0, img_height = 0\<rparr>"

text \<open>
  \<open>stbi_load\<close> returns the pixels and writes the dimensions, or returns null; when it
  returns null it may or may not have written the two out-parameters.
\<close>

datatype decoded = Pixels int int | NoData "(int \<times> int) option"

text \<open>
  The world of one call: the file system, the decoder, the name that \<open>glGenTextures\<close>
  would write, the free space of the parent window, and whether the two buttons report a
  click in this frame.
\<close>

record frame =
  disk :: filesystem
  stbi_load :: "string \<Rightarrow> decoded"
  glGenTextures :: "32 word"
  GetContentRegionAvail :: "real \<times> real"
  prev_clicked :: bool
  next_clicked :: bool

text \<open>
  The thumbnail's width is computed in \<open>float\<close>: a zero divisor does not trap, it gives
  an infinity or a NaN. Rounding is not modelled: \<open>Finite x\<close> carries the value of the
  expression in the reals, which is the \<open>float\<close> the code computes whenever the operands
  and the results are exact in \<open>float\<close> (as every value of the traces below is), and
  differs from it by the rounding otherwise. The same holds of the sizes of
  \<open>panel_size\<close>.
\<close>

datatype extent = Finite real | NotFinite

definition fixed_height :: real where
  "fixed_height = 150"

definition fixed_width :: "int \<Rightarrow> int \<Rightarrow> extent" where
  "fixed_width w h =
     (if h = 0 then NotFinite else Finite (fixed_height * (real_of_int w / real_of_int h)))"

text \<open>
  What a call does, in order; \<open>StbiLoad p r\<close> is a call of \<open>stbi_load\<close> on \<open>p\<close>
  that gave \<open>r\<close>. Calls that only set a style colour, a cursor position or a texture
  parameter carry no data of the widget and are left out.
\<close>

datatype event =
    GetImageFilesCall string
  | StbiLoad string decoded
  | GlGenTextures "32 word"
  | GlTexImage2D "32 word" int int
  | StbiImageFree
  | Cerr string
  | BeginChild string "real \<times> real"
  | ImGuiImage "32 word" extent real
  | AddRect
  | Button string
  | GlDeleteTextures "32 word"
  | Text string
  | EndChild

text \<open>
  Lines 135 to 138: the directory check. When \<open>GetImageFiles\<close> throws, nothing has been
  assigned and the exception leaves \<open>ShowImageSubwindow\<close>.
\<close>

definition rescan :: "frame \<Rightarrow> string \<Rightarrow> statics \<Rightarrow> fault + (statics \<times> event list)" where
  "rescan fr directory s =
     (if last_directory s \<noteq> directory then
        (case GetImageFiles (disk fr) directory of
           Inl f \<Rightarrow> Inl f
         | Inr found \<Rightarrow>
             Inr (s\<lparr>image_files := found, last_directory := directory\<rparr>,
                  [GetImageFilesCall directory]))
      else Inr (s, []))"

text \<open>
  Lines 143 to 159: the load. The boolean says whether the call goes on (\<open>False\<close> is the
  \<open>return\<close> of line 157).
\<close>

definition load_texture :: "frame \<Rightarrow> statics \<Rightarrow> fault + (bool \<times> statics \<times> event list)" where
  "load_texture fr s =
     (if texture s = 0 \<and> image_files s \<noteq> [] then
        (if current_image_index s < length (image_files s) then
           (let image_path = image_files s ! current_image_index s in
            case stbi_load fr image_path of
              Pixels w h \<Rightarrow>
                (let t = glGenTextures fr in
                 Inr (True, s\<lparr>texture := t, img_width := w, img_height := h\<rparr>,
                      [StbiLoad image_path (Pixels w h), GlGenTextures t, GlTexImage2D t w h,
                       StbiImageFree]))
            | NoData written \<Rightarrow>
                Inr (False,
                     (case written of
                        None \<Rightarrow> s
                      | Some (w, h) \<Rightarrow> s\<lparr>img_width := w, img_height := h\<rparr>),
                     [StbiLoad image_path (NoData written),
                      Cerr (''Failed to load image: '' @ image_path)]))
         else Inl VectorIndexOutOfRange)
      else Inr (True, s, []))"

text \<open>Lines 161 to 166: the size of the panel; -1 means the parent's free space.\<close>

definition panel_size :: "frame \<Rightarrow> int \<Rightarrow> int \<Rightarrow> real \<times> real" where
  "panel_size fr width height =
     (if width = -1 \<or> height = -1 then
        (if width = -1 then fst (GetContentRegionAvail fr) else real_of_int width,
         if height = -1 then snd (GetContentRegionAvail fr) else real_of_int height)
      else (real_of_int width, real_of_int height))"

text \<open>Lines 168 to 180: the child window, the image and its border.\<close>

definition draw_image :: "frame \<Rightarrow> string \<Rightarrow> int \<Rightarrow> int \<Rightarrow> statics \<Rightarrow> event list" where
  "draw_image fr title width height s =
     [BeginChild title (panel_size fr width height),
      ImGuiImage (texture s) (fixed_width (img_width s) (img_height s)) fixed_height,
      AddRect]"

text \<open>Lines 187 to 201: the two buttons. \<open>press_prev\<close> and \<open>press_next\<close> are the
  bodies run when the button reports a click.\<close>

definition press_prev :: "statics \<Rightarrow> statics \<times> event list" where
  "press_prev s =
     (if current_image_index s > 0 then
        (s\<lparr>current_image_index := current_image_index s - 1, texture := 0\<rparr>,
         [GlDeleteTextures (texture s)])
      else (s, []))"

definition press_next :: "statics \<Rightarrow> statics \<times> event list" where
  "press_next s =
     (if current_image_index s + 1 < length (image_files s) then
        (s\<lparr>current_image_index := current_image_index s + 1, texture := 0\<rparr>,
         [GlDeleteTextures (texture s)])
      else (s, []))"

definition nav_buttons :: "bool \<Rightarrow> bool \<Rightarrow> statics \<Rightarrow> statics \<times> event list" where
  "nav_buttons prev nxt s =
     (let (s1, e1) = (if prev then press_prev s else (s, []));
          (s2, e2) = (if nxt then press_next s1 else (s1, []))
      in (s2, [Button ''<-''] @ e1 @ [Button ''->''] @ e2))"

text \<open>Lines 204 to 211: the caption and the current file.\<close>

definition caption :: "string \<Rightarrow> statics \<Rightarrow> fault + event list" where
  "caption title s =
     (if image_files s \<noteq> [] then
        (if current_image_index s < length (image_files s) then
           Inr [Text title,
                Text (''Current media: '' @ image_files s ! current_image_index s),
                EndChild]
         else Inl VectorIndexOutOfRange)
      else Inr [Text title, EndChild])"

definition ShowImageSubwindow ::
  "frame \<Rightarrow> string \<Rightarrow> string \<Rightarrow> int \<Rightarrow> int \<Rightarrow> statics \<Rightarrow> fault + (statics \<times> event list)" where
  "ShowImageSubwindow fr title directory width height s =
     (case rescan fr directory s of
        Inl f \<Rightarrow> Inl f
      | Inr (s1, e1) \<Rightarrow>
          (case load_texture fr s1 of
             Inl f \<Rightarrow> Inl f
           | Inr (go_on, s2, e2) \<Rightarrow>
               if \<not> go_on then Inr (s2, e1 @ e2)
               else
                 (let e3 = draw_image fr title width height s2;
                      (s3, e4) = nav_buttons (prev_clicked fr) (next_clicked fr) s2
                  in case caption title s3 of
                       Inl f \<Rightarrow> Inl f
                     | Inr e5 \<Rightarrow> Inr (s3, e1 @ e2 @ e3 @ e4 @ e5))))"

text \<open>A sequence of button activations, as claim C3 speaks of them.\<close>

datatype activation = Prev | Next

fun activate :: "activation \<Rightarrow> statics \<Rightarrow> statics" where
  "activate Prev s = fst (press_prev s)"
| "activate Next s = fst (press_next s)"

fun activations :: "activation list \<Rightarrow> statics \<Rightarrow> statics" where
  "activations [] s = s"
| "activations (a # as) s = activations as (activate a s)"

text \<open>Several calls in a row, each on the statics the one before left.\<close>

record call =
  call_frame :: frame
  call_title :: string
  call_directory :: string
  call_width :: int
  call_height :: int

fun calls :: "call list \<Rightarrow> statics \<Rightarrow> fault + (statics \<times> event list)" where
  "calls [] s = Inr (s, [])"
| "calls (c # cs) s =
     (case ShowImageSubwindow (call_frame c) (call_title c) (call_directory c)
             (call_width c) (call_height c) s of
        Inl f \<Rightarrow> Inl f
      | Inr (s1, e1) \<Rightarrow>
          (case calls cs s1 of
             Inl f \<Rightarrow> Inl f
           | Inr (s2, e2) \<Rightarrow> Inr (s2, e1 @ e2)))"

text \<open>
  The events that scan a directory, decode a file, or create, fill or delete a texture, and
  the events that draw the panel.
\<close>

fun is_resource_event :: "event \<Rightarrow> bool" where
  "is_resource_event (GetImageFilesCall d) = True"
| "is_resource_event (StbiLoad p r) = True"
| "is_resource_event (GlGenTextures t) = True"
| "is_resource_event (GlTexImage2D t w h) = True"
| "is_resource_event (GlDeleteTextures t) = True"
| "is_resource_event e = False"

fun is_panel_event :: "event \<Rightarrow> bool" where
  "is_panel_event (BeginChild t sz) = True"
| "is_panel_event (ImGuiImage t w h) = True"
| "is_panel_event AddRect = True"
| "is_panel_event (Button l) = True"
| "is_panel_event (Text l) = True"
| "is_panel_event EndChild = True"
| "is_panel_event e = False"

text \<open>
  The file the pixels of the held texture were decoded from, read off the trace: a decode
  that gave pixels is followed by the upload into a new texture, and deleting the texture
  leaves none.
\<close>

fun source_step :: "string option \<Rightarrow> event \<Rightarrow> string option" where
  "source_step src (StbiLoad p (Pixels w h)) = Some p"
| "source_step src (GlDeleteTextures t) = None"
| "source_step src e = src"

definition texture_source :: "event list \<Rightarrow> string option" where
  "texture_source ev = foldl source_step None ev"

text \<open>
  The held texture matches the current file: there is no texture, or the directory is bound,
  the index is within the list and the texture's pixels come from the file at the index.
\<close>

definition texture_matches :: "string \<Rightarrow> statics \<Rightarrow> string option \<Rightarrow> bool" where
  "texture_matches d s src =
     (texture s = 0 \<or>
      (last_directory s = d \<and> current_image_index s < length (image_files s) \<and>
       src = Some (image_files s ! current_image_index s)))"

subsection \<open>A concrete world\<close>

text \<open>
  Five directories: \<open>pics\<close> (two recognised images, a text file, an upper-case
  \<open>.PNG\<close> and a subdirectory whose name ends in \<open>.png\<close>), \<open>other\<close> (two images),
  \<open>single\<close> (one image, which does not decode), \<open>empty\<close>, and \<open>locked\<close>,
  which cannot be opened; a file \<open>notes.txt\<close>; and a name, \<open>overlong\<close>, that the
  system refuses to look up.
\<close>

definition demo_disk :: filesystem where
  "demo_disk =
     \<lparr>fs_exists = (\<lambda>p.
        if p = ''overlong'' then None
        else Some (p \<in> set [''pics'', ''other'', ''single'', ''empty'', ''locked'', ''notes.txt''])),
      fs_is_directory = (\<lambda>p.
        Some (p \<in> set [''pics'', ''other'', ''single'', ''empty'', ''locked''])),
      directory_iterator = (\<lambda>p.
        if p = ''pics'' then
          [Some \<lparr>entry_name = ''a.png'', is_regular_file = Some True\<rparr>,
           Some \<lparr>entry_name = ''b.jpg'', is_regular_file = Some True\<rparr>,
           Some \<lparr>entry_name = ''c.txt'', is_regular_file = Some True\<rparr>,
           Some \<lparr>entry_name = ''D.PNG'', is_regular_file = Some True\<rparr>,
           Some \<lparr>entry_name = ''sub.png'', is_regular_file = Some False\<rparr>]
        else if p = ''other'' then
          [Some \<lparr>entry_name = ''x.jpeg'', is_regular_file = Some True\<rparr>,
           Some \<lparr>entry_name = ''y.png'', is_regular_file = Some True\<rparr>]
        else if p = ''single'' then
          [Some \<lparr>entry_name = ''z.png'', is_regular_file = Some True\<rparr>]
        else if p = ''locked'' then [None]
        else [])\<rparr>"

definition demo_frame :: frame where
  "demo_frame =
     \<lparr>disk = demo_disk,
      stbi_load = (\<lambda>p. if p = ''single/z.png'' then NoData None else Pixels 4 2),
      glGenTextures = 7,
      GetContentRegionAvail = (400, 600),
      prev_clicked = False,
      next_clicked = False\<rparr>"

definition demo_call :: "string \<Rightarrow> string \<Rightarrow> bool \<Rightarrow> call" where
  "demo_call t d nxt =
     \<lparr>call_frame = demo_frame\<lparr>next_clicked := nxt\<rparr>, call_title = t, call_directory = d,
      call_width = -1, call_height = 250\<rparr>"

text \<open>The statics after browsing \<open>pics\<close> to its second image.\<close>

definition browsing_pics :: statics where
  "browsing_pics =
     \<lparr>image_files = [''pics/a.png'', ''pics/b.jpg''], last_directory = ''pics'',
      current_image_index = 1, texture = 7, img_width = 4, img_height = 2\<rparr>"

text \<open>
  An application bundle in \<open>/Applications\<close>, started in \<open>/home/user\<close>, on a file
  system where the paths of \<open>dirs\<close> are directories and the paths of \<open>unreadable\<close>
  cannot be examined.
\<close>

definition demo_path_env :: "string list \<Rightarrow> string list \<Rightarrow> path_env" where
  "demo_path_env dirs unreadable =
     \<lparr>executable_path = Some ''/Applications/app.app/Contents/MacOS/app'',
      parent_path = (\<lambda>p. if p = ''/Applications/app.app/Contents/MacOS/app''
                          then ''/Applications/app.app/Contents/MacOS''
                          else if p = ''/Applications/app.app/Contents/MacOS''
                          then ''/Applications/app.app/Contents''
                          else p),
      current_path = Some ''/home/user'',
      files = \<lparr>fs_exists = (\<lambda>p. if p \<in> set unreadable then None else Some (p \<in> set dirs)),
               fs_is_directory = (\<lambda>p. Some (p \<in> set dirs)),
               directory_iterator = (\<lambda>p. [])\<rparr>\<rparr>"


section \<open>Lemmas\<close>

subsection \<open>The data path\<close>

lemma is_dir_cases:
  "is_dir fs p =
     (if examination_fails fs p then Inl FilesystemError else Inr (existing_directory fs p))"
  by (auto simp: is_dir_def examination_fails_def existing_directory_def
      split: option.splits bool.splits)

lemma first_system_path_stop:
  "first_system_path fs ps d =
     (case first_stop fs ps of Some p \<Rightarrow> stop_result fs p | None \<Rightarrow> Inr d)"
  by (induction ps) (simp_all add: first_stop_def stop_result_def is_dir_cases)

lemma getDataPath_from_cwd_stop:
  "getDataPath_from_cwd e =
     (case current_path e of
        None \<Rightarrow> Inl FilesystemError
      | Some cwd \<Rightarrow>
          (case first_stop (files e) (working_directory_locations cwd) of
             Some p \<Rightarrow> stop_result (files e) p
           | None \<Rightarrow> Inr (path_append cwd ''data'')))"
proof (cases "current_path e")
  case None
  then show ?thesis by (simp add: getDataPath_from_cwd_def)
next
  case (Some cwd)
  have "working_directory_locations cwd = path_append cwd ''data'' # systemPaths"
    by (simp add: working_directory_locations_def systemPaths_def)
  moreover have "first_stop (files e) (path_append cwd ''data'' # systemPaths) =
      (if existing_directory (files e) (path_append cwd ''data'')
          \<or> examination_fails (files e) (path_append cwd ''data'')
       then Some (path_append cwd ''data'') else first_stop (files e) systemPaths)"
    by (simp add: first_stop_def)
  ultimately show ?thesis
    using Some
    by (simp add: getDataPath_from_cwd_def Let_def first_system_path_stop is_dir_cases
        stop_result_def)
qed

lemma resources_path:
  "path_append (path_append p ''Resources'') ''data'' = path_append p ''Resources/data''"
  by (simp add: path_append_def)

lemma getDataPath_search:
  "getDataPath e =
     (case first_stop (files e) (bundle_location e) of
        Some p \<Rightarrow> stop_result (files e) p
      | None \<Rightarrow>
          (case current_path e of
             None \<Rightarrow> Inl FilesystemError
           | Some cwd \<Rightarrow>
               (case first_stop (files e) (working_directory_locations cwd) of
                  Some p \<Rightarrow> stop_result (files e) p
                | None \<Rightarrow> Inr (path_append cwd ''data''))))"
  by (cases "executable_path e")
    (simp_all add: getDataPath_def bundle_location_def first_stop_def Let_def resources_path
      is_dir_cases stop_result_def getDataPath_from_cwd_stop)

lemma find_in_appended:
  "find P (xs @ ys) = (case find P xs of Some x \<Rightarrow> Some x | None \<Rightarrow> find P ys)"
  by (induction xs) simp_all

lemma first_stop_without_failure:
  "list_all (\<lambda>p. \<not> examination_fails fs p) ps \<Longrightarrow>
   first_stop fs ps = find (existing_directory fs) ps"
  by (induction ps) (simp_all add: first_stop_def)

lemma first_stop_is_directory:
  "list_all (\<lambda>p. \<not> examination_fails fs p) ps \<Longrightarrow> first_stop fs ps = Some p \<Longrightarrow>
   stop_result fs p = Inr p"
  by (induction ps) (auto simp: first_stop_def stop_result_def split: if_splits)

lemma getDataPath_without_failure:
  assumes "current_path e = Some cwd"
    and "list_all (\<lambda>p. \<not> examination_fails (files e) p)
           (bundle_location e @ working_directory_locations cwd)"
  shows "getDataPath e =
           Inr (case find (existing_directory (files e))
                       (bundle_location e @ working_directory_locations cwd) of
                  Some p \<Rightarrow> p
                | None \<Rightarrow> path_append cwd ''data'')"
proof -
  from assms(2) have b: "list_all (\<lambda>p. \<not> examination_fails (files e) p) (bundle_location e)"
    and c: "list_all (\<lambda>p. \<not> examination_fails (files e) p) (working_directory_locations cwd)"
    by simp_all
  show ?thesis
  proof (cases "first_stop (files e) (bundle_location e)")
    case (Some p)
    with b show ?thesis
      using first_stop_is_directory [OF b Some] first_stop_without_failure [OF b]
      by (simp add: getDataPath_search find_in_appended)
  next
    case None
    note none_b = None
    show ?thesis
    proof (cases "first_stop (files e) (working_directory_locations cwd)")
      case None
      with none_b assms(1) show ?thesis
        using first_stop_without_failure [OF b] first_stop_without_failure [OF c]
        by (simp add: getDataPath_search find_in_appended)
    next
      case (Some p)
      with none_b assms(1) show ?thesis
        using first_stop_without_failure [OF b] first_stop_without_failure [OF c]
          first_stop_is_directory [OF c Some]
        by (simp add: getDataPath_search find_in_appended)
    qed
  qed
qed

subsection \<open>The scanner\<close>

text \<open>\<open>EndsWith\<close> is the library's \<open>suffix\<close>, with the arguments the other way round.\<close>

lemma EndsWith_suffix: "EndsWith str sfx = suffix sfx str"
proof
  assume "EndsWith str sfx"
  then have len: "length sfx \<le> length str"
    and eq: "take (length sfx) (drop (length str - length sfx) str) = sfx"
    by (simp_all add: EndsWith_def)
  from len have "take (length sfx) (drop (length str - length sfx) str)
      = drop (length str - length sfx) str"
    by simp
  with eq have "drop (length str - length sfx) str = sfx" by simp
  then have "str = take (length str - length sfx) str @ sfx"
    by (metis append_take_drop_id)
  then show "suffix sfx str" by (metis suffixI)
next
  assume "suffix sfx str"
  then obtain pre where "str = pre @ sfx" by (auto simp: suffix_def)
  then show "EndsWith str sfx" by (simp add: EndsWith_def)
qed

text \<open>
  A suffix without the separator cannot reach back over a separator: the path of an entry
  ends in it exactly when the entry's name does.
\<close>

lemma suffix_behind_separator:
  assumes "pre \<noteq> []" "last pre = c" "c \<notin> set sfx"
  shows "suffix sfx (pre @ name) = suffix sfx name"
proof
  assume "suffix sfx (pre @ name)"
  then consider "suffix sfx name" | xs where "suffix xs pre" "sfx = xs @ name"
    by (auto simp: suffix_append)
  then show "suffix sfx name"
  proof cases
    case 1
    then show ?thesis .
  next
    case 2
    show ?thesis
    proof (cases "xs = []")
      case True
      with 2 show ?thesis by simp
    next
      case False
      from 2(1) obtain ys where "pre = ys @ xs" by (auto simp: suffix_def)
      with False have "last pre = last xs" by simp
      with False assms(2) have "c \<in> set xs" by (metis last_in_set)
      with 2(2) assms(3) show ?thesis by simp
    qed
  qed
next
  assume "suffix sfx name"
  then show "suffix sfx (pre @ name)" by (simp add: suffix_appendI)
qed

lemma EndsWith_path_append:
  assumes "CHR ''/'' \<notin> set sfx"
  shows "EndsWith (path_append d name) sfx = suffix sfx name"
proof (cases "d = []")
  case True
  then show ?thesis by (simp add: path_append_def EndsWith_suffix)
next
  case False
  show ?thesis
  proof (cases "last d = CHR ''/''")
    case True
    with False assms show ?thesis
      by (simp add: path_append_def EndsWith_suffix suffix_behind_separator)
  next
    case no_sep: False
    have "suffix sfx ((d @ ''/'') @ name) = suffix sfx name"
      using assms by (intro suffix_behind_separator [where c = "CHR ''/''"]) simp_all
    with False no_sep show ?thesis
      by (simp add: path_append_def EndsWith_suffix)
  qed
qed

lemma is_image_path_append:
  "is_image_path (path_append d name) = has_recognized_suffix name"
  by (simp add: is_image_path_def has_recognized_suffix_def recognized_suffixes_def
      EndsWith_path_append)

lemma scan_entries_filter:
  "scan_entries d items acc =
     (if iteration_fails items then Inl FilesystemError
      else Inr (acc @ map (\<lambda>e. path_append d (entry_name e))
                  (filter (\<lambda>e. is_regular_file e = Some True
                                \<and> has_recognized_suffix (entry_name e))
                     (delivered_entries items))))"
proof (induction items arbitrary: acc)
  case Nil
  show ?case by (simp add: iteration_fails_def delivered_entries_def List.map_filter_simps)
next
  case (Cons i items)
  show ?case
  proof (cases i)
    case None
    then show ?thesis by (simp add: iteration_fails_def)
  next
    case (Some entry)
    have d: "delivered_entries (Some entry # items) = entry # delivered_entries items"
      by (simp add: delivered_entries_def List.map_filter_simps)
    have f: "iteration_fails (Some entry # items) =
        (is_regular_file entry = None \<or> iteration_fails items)"
      by (simp add: iteration_fails_def)
    show ?thesis
      unfolding Some d f
      by (cases "is_regular_file entry") (auto simp: Cons.IH Let_def is_image_path_append)
  qed
qed

subsection \<open>The buttons\<close>






lemma next_on_empty_list: "image_files s = [] \<Longrightarrow> activate Next s = s"
  by (simp add: press_next_def)


lemma prev_at_first: "current_image_index s = 0 \<Longrightarrow> press_prev s = (s, [])"
  by (simp add: press_prev_def)

lemma next_at_last:
  "current_image_index s + 1 = length (image_files s) \<Longrightarrow> press_next s = (s, [])"
  by (simp add: press_next_def)

lemma nav_buttons_prev_at_first:
  "current_image_index s = 0 \<Longrightarrow> nav_buttons True n s = nav_buttons False n s"
  by (simp add: nav_buttons_def prev_at_first)

lemma nav_buttons_next_at_last:
  "current_image_index s + 1 = length (image_files s) \<Longrightarrow>
   nav_buttons False True s = nav_buttons False False s"
  by (simp add: nav_buttons_def next_at_last)

text \<open>The two buttons of one call are at most one activation of each, previous first.\<close>

lemma nav_buttons_activations:
  "fst (nav_buttons p n s) =
     activations ((if p then [Prev] else []) @ (if n then [Next] else [])) s"
  by (simp add: nav_buttons_def split: prod.split)

subsection \<open>The phases of a call\<close>

lemma rescan_changes_only_the_file_list:
  "rescan fr d s = Inr (s1, e1) \<Longrightarrow>
   (last_directory s = d \<and> s1 = s \<and> e1 = [])
   \<or> (last_directory s \<noteq> d \<and> e1 = [GetImageFilesCall d]
       \<and> (\<exists>found. GetImageFiles (disk fr) d = Inr found
             \<and> s1 = s\<lparr>image_files := found, last_directory := d\<rparr>))"
  by (auto simp: rescan_def split: if_splits sum.splits)

lemma rescan_ignores_clicks:
  "rescan (fr\<lparr>prev_clicked := p, next_clicked := n\<rparr>) d s = rescan fr d s"
  by (simp add: rescan_def)

lemma load_texture_ignores_clicks:
  "load_texture (fr\<lparr>prev_clicked := p, next_clicked := n\<rparr>) s = load_texture fr s"
  by (simp add: load_texture_def Let_def split: decoded.split)

lemma draw_image_ignores_clicks:
  "draw_image (fr\<lparr>prev_clicked := p, next_clicked := n\<rparr>) t w h s = draw_image fr t w h s"
  by (simp add: draw_image_def panel_size_def)

lemma rescan_index:
  "rescan fr d s = Inr (s1, e1) \<Longrightarrow> current_image_index s1 = current_image_index s"
  by (auto simp: rescan_def split: if_splits sum.splits)

lemma load_texture_keeps:
  "load_texture fr s = Inr (go, s', ev) \<Longrightarrow>
   current_image_index s' = current_image_index s \<and> image_files s' = image_files s
   \<and> last_directory s' = last_directory s"
  by (auto simp: load_texture_def Let_def split: if_splits decoded.splits option.splits)

lemma ShowImageSubwindow_prev_at_first:
  assumes "current_image_index s = 0"
  shows "ShowImageSubwindow (fr\<lparr>prev_clicked := True, next_clicked := n\<rparr>) t d w h s =
         ShowImageSubwindow (fr\<lparr>prev_clicked := False, next_clicked := n\<rparr>) t d w h s"
proof (cases "rescan fr d s")
  case (Inl f)
  then show ?thesis by (simp add: ShowImageSubwindow_def rescan_ignores_clicks)
next
  case (Inr x)
  then obtain s1 e1 where r: "rescan fr d s = Inr (s1, e1)" by (cases x) auto
  with assms have i1: "current_image_index s1 = 0" by (simp add: rescan_index)
  show ?thesis
  proof (cases "load_texture fr s1")
    case (Inl f)
    with r show ?thesis
      by (simp add: ShowImageSubwindow_def rescan_ignores_clicks load_texture_ignores_clicks)
  next
    case (Inr y)
    then obtain go s2 e2 where l: "load_texture fr s1 = Inr (go, s2, e2)" by (cases y) auto
    with i1 have "current_image_index s2 = 0" by (auto dest: load_texture_keeps)
    then have "nav_buttons True n s2 = nav_buttons False n s2"
      by (rule nav_buttons_prev_at_first)
    with r l show ?thesis
      by (simp add: ShowImageSubwindow_def rescan_ignores_clicks load_texture_ignores_clicks
          draw_image_ignores_clicks)
  qed
qed

lemma ShowImageSubwindow_next_at_last:
  assumes "\<forall>s1 e1. rescan fr d s = Inr (s1, e1) \<longrightarrow>
             current_image_index s + 1 = length (image_files s1)"
  shows "ShowImageSubwindow (fr\<lparr>prev_clicked := False, next_clicked := True\<rparr>) t d w h s =
         ShowImageSubwindow (fr\<lparr>prev_clicked := False, next_clicked := False\<rparr>) t d w h s"
proof (cases "rescan fr d s")
  case (Inl f)
  then show ?thesis by (simp add: ShowImageSubwindow_def rescan_ignores_clicks)
next
  case (Inr x)
  then obtain s1 e1 where r: "rescan fr d s = Inr (s1, e1)" by (cases x) auto
  with assms have i1: "current_image_index s1 + 1 = length (image_files s1)"
    by (simp add: rescan_index)
  show ?thesis
  proof (cases "load_texture fr s1")
    case (Inl f)
    with r show ?thesis
      by (simp add: ShowImageSubwindow_def rescan_ignores_clicks load_texture_ignores_clicks)
  next
    case (Inr y)
    then obtain go s2 e2 where l: "load_texture fr s1 = Inr (go, s2, e2)" by (cases y) auto
    with i1 have "current_image_index s2 + 1 = length (image_files s2)"
      by (auto dest: load_texture_keeps)
    then have "nav_buttons False True s2 = nav_buttons False False s2"
      by (rule nav_buttons_next_at_last)
    with r l show ?thesis
      by (simp add: ShowImageSubwindow_def rescan_ignores_clicks load_texture_ignores_clicks
          draw_image_ignores_clicks)
  qed
qed

lemma caption_ok:
  "image_files s = [] \<or> current_image_index s < length (image_files s) \<Longrightarrow>
   \<exists>ev. caption t s = Inr ev \<and> \<not> list_ex is_resource_event ev"
  by (auto simp: caption_def)

lemma caption_cases:
  "(caption t s = Inl VectorIndexOutOfRange \<and> image_files s \<noteq> []
      \<and> \<not> current_image_index s < length (image_files s))
   \<or> (\<exists>ev. caption t s = Inr ev
        \<and> (image_files s = [] \<or> current_image_index s < length (image_files s)))"
  by (simp add: caption_def)

lemma ShowImageSubwindow_state_ignores_title:
  "map_sum id fst (ShowImageSubwindow fr t1 d w h s) =
   map_sum id fst (ShowImageSubwindow fr t2 d w h s)"
proof (cases "rescan fr d s")
  case (Inl f)
  then show ?thesis by (simp add: ShowImageSubwindow_def)
next
  case (Inr x)
  then obtain s1 e1 where r: "rescan fr d s = Inr (s1, e1)" by (cases x) auto
  show ?thesis
  proof (cases "load_texture fr s1")
    case (Inl f)
    with r show ?thesis by (simp add: ShowImageSubwindow_def)
  next
    case (Inr y)
    then obtain go s2 e2 where l: "load_texture fr s1 = Inr (go, s2, e2)" by (cases y) auto
    obtain s3 e4 where n: "nav_buttons (prev_clicked fr) (next_clicked fr) s2 = (s3, e4)"
      by (cases "nav_buttons (prev_clicked fr) (next_clicked fr) s2")
    show ?thesis
      using caption_cases [of t1 s3] caption_cases [of t2 s3]
      by (auto simp: ShowImageSubwindow_def r l n)
  qed
qed

subsection \<open>The held texture while the directory stays the same\<close>

text \<open>
  As long as every call is given the same directory, a held texture was decoded from the
  file at the current index: each phase of a call keeps \<open>texture_matches\<close>.
\<close>

lemma rescan_matches:
  assumes "texture_matches d s src" and "rescan fr d s = Inr (s1, e1)"
  shows "texture_matches d s1 (foldl source_step src e1) \<and> last_directory s1 = d"
  using assms by (auto simp: rescan_def texture_matches_def split: if_splits sum.splits)

lemma load_texture_matches:
  assumes "texture_matches d s src" and "last_directory s = d"
    and "load_texture fr s = Inr (go, s', ev)"
  shows "texture_matches d s' (foldl source_step src ev)"
  using assms
  by (auto simp: load_texture_def texture_matches_def Let_def
      split: if_splits decoded.splits option.splits)

lemma press_prev_matches:
  "texture_matches d s src \<Longrightarrow> press_prev s = (s', ev) \<Longrightarrow>
   texture_matches d s' (foldl source_step src ev)"
  by (auto simp: press_prev_def texture_matches_def split: if_splits)

lemma press_next_matches:
  "texture_matches d s src \<Longrightarrow> press_next s = (s', ev) \<Longrightarrow>
   texture_matches d s' (foldl source_step src ev)"
  by (auto simp: press_next_def texture_matches_def split: if_splits)

lemma nav_buttons_matches:
  assumes "texture_matches d s src" and "nav_buttons p n s = (s', ev)"
  shows "texture_matches d s' (foldl source_step src ev)"
proof -
  obtain s1 e1 where a: "(if p then press_prev s else (s, [])) = (s1, e1)"
    by (cases "if p then press_prev s else (s, [])")
  obtain s2 e2 where b: "(if n then press_next s1 else (s1, [])) = (s2, e2)"
    by (cases "if n then press_next s1 else (s1, [])")
  from assms(1) a have m1: "texture_matches d s1 (foldl source_step src e1)"
    by (auto split: if_splits dest: press_prev_matches)
  from m1 b have m2: "texture_matches d s2 (foldl source_step (foldl source_step src e1) e2)"
    by (auto split: if_splits dest: press_next_matches)
  from assms(2) a b have "s' = s2" "ev = [Button ''<-''] @ e1 @ [Button ''->''] @ e2"
    by (simp_all add: nav_buttons_def)
  with m2 show ?thesis by simp
qed

lemma caption_source: "caption t s = Inr ev \<Longrightarrow> foldl source_step src ev = src"
  by (auto simp: caption_def split: if_splits)

lemma draw_image_source: "foldl source_step src (draw_image fr t w h s) = src"
  by (simp add: draw_image_def)

lemma ShowImageSubwindow_matches:
  assumes "texture_matches d s src"
    and "ShowImageSubwindow fr t d w h s = Inr (s', ev)"
  shows "texture_matches d s' (foldl source_step src ev)"
proof -
  from assms(2) obtain s1 e1 where r: "rescan fr d s = Inr (s1, e1)"
    by (cases "rescan fr d s") (auto simp: ShowImageSubwindow_def)
  from rescan_matches [OF assms(1) r]
  have m1: "texture_matches d s1 (foldl source_step src e1)" and d1: "last_directory s1 = d"
    by simp_all
  from assms(2) r obtain go s2 e2 where l: "load_texture fr s1 = Inr (go, s2, e2)"
    by (cases "load_texture fr s1") (auto simp: ShowImageSubwindow_def)
  from load_texture_matches [OF m1 d1 l]
  have m2: "texture_matches d s2 (foldl source_step (foldl source_step src e1) e2)" .
  show ?thesis
  proof (cases go)
    case False
    with assms(2) r l have "s' = s2" "ev = e1 @ e2" by (simp_all add: ShowImageSubwindow_def)
    with m2 show ?thesis by simp
  next
    case True
    obtain s3 e4 where n: "nav_buttons (prev_clicked fr) (next_clicked fr) s2 = (s3, e4)"
      by (cases "nav_buttons (prev_clicked fr) (next_clicked fr) s2")
    from assms(2) r l True n obtain e5 where c: "caption t s3 = Inr e5"
      by (cases "caption t s3") (auto simp: ShowImageSubwindow_def)
    from assms(2) r l True n c
    have "s' = s3" "ev = e1 @ e2 @ draw_image fr t w h s2 @ e4 @ e5"
      by (simp_all add: ShowImageSubwindow_def)
    moreover from nav_buttons_matches [OF m2 n]
    have "texture_matches d s3
        (foldl source_step (foldl source_step (foldl source_step src e1) e2) e4)" .
    ultimately show ?thesis by (simp add: draw_image_source caption_source [OF c])
  qed
qed

lemma calls_matches:
  assumes "texture_matches d s src"
    and "list_all (\<lambda>c. call_directory c = d) cs"
    and "calls cs s = Inr (s', ev)"
  shows "texture_matches d s' (foldl source_step src ev)"
  using assms
proof (induction cs arbitrary: s src ev)
  case Nil
  then show ?case by simp
next
  case (Cons c cs)
  from Cons.prems(3) obtain s1 e1 where
    a: "ShowImageSubwindow (call_frame c) (call_title c) d (call_width c) (call_height c) s
        = Inr (s1, e1)"
    using Cons.prems(2)
    by (cases "ShowImageSubwindow (call_frame c) (call_title c) d (call_width c) (call_height c) s")
      auto
  with Cons.prems(2,3) obtain e2 where b: "calls cs s1 = Inr (s', e2)" and ev: "ev = e1 @ e2"
    by (cases "calls cs s1") auto
  from ShowImageSubwindow_matches [OF Cons.prems(1) a]
  have "texture_matches d s1 (foldl source_step src e1)" .
  from Cons.IH [OF this _ b] Cons.prems(2) ev show ?case by simp
qed

lemma texture_matches_current_file:
  assumes "list_all (\<lambda>c. call_directory c = d) cs"
    and "calls cs initial_statics = Inr (s, ev)"
    and "texture s \<noteq> 0"
  shows "current_image_index s < length (image_files s)
         \<and> texture_source ev = Some (image_files s ! current_image_index s)"
proof -
  have "texture_matches d initial_statics None"
    by (simp add: texture_matches_def initial_statics_def)
  from calls_matches [OF this assms(1,2)] assms(3) show ?thesis
    by (simp add: texture_matches_def texture_source_def)
qed

subsection \<open>The thumbnail\<close>

lemma fixed_width_NotFinite: "fixed_width w h = NotFinite \<longleftrightarrow> h = 0"
  by (simp add: fixed_width_def)

lemma fixed_width_Finite:
  "h \<noteq> 0 \<Longrightarrow> fixed_width w h = Finite (fixed_height * real_of_int w / real_of_int h)"
  by (simp add: fixed_width_def)

subsection \<open>Unfolding the model on concrete input\<close>

lemmas demo_defs = demo_frame_def demo_disk_def demo_call_def browsing_pics_def initial_statics_def

lemmas run_defs = ShowImageSubwindow_def rescan_def load_texture_def draw_image_def nav_buttons_def
  press_prev_def press_next_def caption_def panel_size_def fixed_width_def fixed_height_def
  GetImageFiles_def path_append_def is_image_path_def EndsWith_def Let_def

section \<open>The claims\<close>

text \<open>
  Claim C1. A call whose directory differs from the stored one re-scans, resets the index to
  0 and releases the held texture. The code re-scans and stores the directory, and does
  nothing else: called on \<open>other\<close> while the second image of \<open>pics\<close> is shown, it
  keeps index 1 and texture 7 and deletes no texture; called on \<open>single\<close>, whose list
  has one file, it reads \<open>image_files[1]\<close> past the end of the vector. The statics it
  starts from are those two calls on \<open>pics\<close> leave.
\<close>

theorem directory_change_keeps_index_and_texture:
  "ShowImageSubwindow demo_frame ''T'' ''other'' (-1) 250 browsing_pics =
     Inr (\<lparr>image_files = [''other/x.jpeg'', ''other/y.png''], last_directory = ''other'',
           current_image_index = 1, texture = 7, img_width = 4, img_height = 2\<rparr>,
          [GetImageFilesCall ''other'', BeginChild ''T'' (400, 250),
           ImGuiImage 7 (Finite 300) 150, AddRect, Button ''<-'', Button ''->'',
           Text ''T'', Text ''Current media: other/y.png'', EndChild])
   \<and> ShowImageSubwindow demo_frame ''T'' ''single'' (-1) 250 browsing_pics
     = Inl VectorIndexOutOfRange
   \<and> map_sum id fst
       (calls [demo_call ''T'' ''pics'' True, demo_call ''T'' ''pics'' False] initial_statics)
     = Inr browsing_pics"
  by (simp add: demo_defs run_defs)

text \<open>
  Claim C2. A held texture was decoded from \<open>images[current_index]\<close>, never from an
  entry of a previously bound directory's list. After a call on \<open>pics\<close> and a call on
  \<open>other\<close> the held texture 7 is still the one decoded from \<open>pics/a.png\<close>, while
  the current file is \<open>other/x.jpeg\<close>, which was never decoded. (With one directory
  throughout the property holds: \<open>texture_matches_current_file\<close>.)
\<close>

theorem texture_of_previous_directory_is_kept:
  "calls [demo_call ''T'' ''pics'' False, demo_call ''T'' ''other'' False] initial_statics =
     Inr (\<lparr>image_files = [''other/x.jpeg'', ''other/y.png''], last_directory = ''other'',
           current_image_index = 0, texture = 7, img_width = 4, img_height = 2\<rparr>,
          [GetImageFilesCall ''pics'', StbiLoad ''pics/a.png'' (Pixels 4 2), GlGenTextures 7,
           GlTexImage2D 7 4 2, StbiImageFree, BeginChild ''T'' (400, 250),
           ImGuiImage 7 (Finite 300) 150, AddRect, Button ''<-'', Button ''->'',
           Text ''T'', Text ''Current media: pics/a.png'', EndChild,
           GetImageFilesCall ''other'', BeginChild ''T'' (400, 250),
           ImGuiImage 7 (Finite 300) 150, AddRect, Button ''<-'', Button ''->'',
           Text ''T'', Text ''Current media: other/x.jpeg'', EndChild])"
  by (simp add: demo_defs run_defs)




text \<open>
  Claim C4, as amended. When the decode of \<open>images[current_index]\<close> fails, the call
  writes the failure to the error stream and returns at once: the texture stays 0, the index
  is unchanged, the file is decoded once, and nothing of the panel is drawn (no child
  window, image, button or caption).
\<close>

theorem failed_decode_returns_before_drawing:
  assumes "rescan fr d s = Inr (s1, e1)" and "texture s = 0"
    and "current_image_index s < length (image_files s1)"
    and "stbi_load fr (image_files s1 ! current_image_index s) = NoData written"
  shows "\<exists>s'. ShowImageSubwindow fr t d w h s =
           Inr (s', e1 @ [StbiLoad (image_files s1 ! current_image_index s) (NoData written),
                          Cerr (''Failed to load image: '' @ image_files s1 ! current_image_index s)])
         \<and> texture s' = 0 \<and> current_image_index s' = current_image_index s
         \<and> image_files s' = image_files s1 \<and> last_directory s' = d
         \<and> \<not> list_ex is_panel_event e1"
proof -
  from assms(1) have s1: "texture s1 = texture s" "current_image_index s1 = current_image_index s"
    "last_directory s1 = d" "\<not> list_ex is_panel_event e1"
    by (auto simp: rescan_def split: if_splits sum.splits)
  with assms(2,3) have ne: "image_files s1 \<noteq> []" by auto
  define s' where "s' = (case written of None \<Rightarrow> s1 | Some (x, y) \<Rightarrow> s1\<lparr>img_width := x, img_height := y\<rparr>)"
  have l: "load_texture fr s1 = Inr (False, s',
      [StbiLoad (image_files s1 ! current_image_index s) (NoData written),
       Cerr (''Failed to load image: '' @ image_files s1 ! current_image_index s)])"
    using assms(2,3,4) s1 ne by (simp add: load_texture_def s'_def Let_def)
  have "texture s' = 0 \<and> current_image_index s' = current_image_index s
         \<and> image_files s' = image_files s1 \<and> last_directory s' = d
         \<and> \<not> list_ex is_panel_event e1"
    using s1 assms(2) by (simp add: s'_def split: option.split prod.split)
  moreover have "ShowImageSubwindow fr t d w h s =
           Inr (s', e1 @ [StbiLoad (image_files s1 ! current_image_index s) (NoData written),
                          Cerr (''Failed to load image: '' @ image_files s1 ! current_image_index s)])"
    by (simp add: ShowImageSubwindow_def assms(1) l)
  ultimately show ?thesis by blast
qed

theorem failed_decode_returns_before_drawing_witness:
  "rescan demo_frame ''single'' initial_statics
     = Inr (initial_statics\<lparr>image_files := [''single/z.png''], last_directory := ''single''\<rparr>,
            [GetImageFilesCall ''single''])
   \<and> texture initial_statics = 0
   \<and> stbi_load demo_frame ''single/z.png'' = NoData None
   \<and> (\<exists>s'. ShowImageSubwindow demo_frame ''T'' ''single'' (-1) 250 initial_statics
         = Inr (s', [GetImageFilesCall ''single'', StbiLoad ''single/z.png'' (NoData None),
                     Cerr ''Failed to load image: single/z.png''])
       \<and> texture s' = 0 \<and> current_image_index s' = 0
       \<and> image_files s' = [''single/z.png''] \<and> last_directory s' = ''single'')"
proof -
  have r: "rescan demo_frame ''single'' initial_statics
     = Inr (initial_statics\<lparr>image_files := [''single/z.png''], last_directory := ''single''\<rparr>,
            [GetImageFilesCall ''single''])"
    by (simp add: rescan_def demo_defs GetImageFiles_def path_append_def is_image_path_def
        EndsWith_def)
  have t: "texture initial_statics = 0" by (simp add: initial_statics_def)
  have l: "stbi_load demo_frame ''single/z.png'' = NoData None" by (simp add: demo_frame_def)
  from failed_decode_returns_before_drawing [OF r t, where written = None and t = "''T''"
      and w = "-1" and h = 250] l
  show ?thesis using r t by (simp add: initial_statics_def)
qed

text \<open>
  Claim C4 as stated has the call render the panel with no image. The trace of a call whose
  decode fails holds the scan, the decode and the message, and no event of the panel.
\<close>

theorem failed_decode_draws_no_panel_counterexample:
  "ShowImageSubwindow demo_frame ''T'' ''single'' (-1) 250 initial_statics =
     Inr (\<lparr>image_files = [''single/z.png''], last_directory = ''single'',
           current_image_index = 0, texture = 0, img_width = 0, img_height = 0\<rparr>,
          [GetImageFilesCall ''single'', StbiLoad ''single/z.png'' (NoData None),
           Cerr ''Failed to load image: single/z.png''])
   \<and> \<not> list_ex is_panel_event
         [GetImageFilesCall ''single'', StbiLoad ''single/z.png'' (NoData None),
          Cerr ''Failed to load image: single/z.png'']"
  by (simp add: demo_defs run_defs)

text \<open>
  Claim C5. The divisor \<open>img_height\<close> is never zero where the thumbnail's width is
  computed, also when there are no images. On an empty directory the first call draws the
  image with texture 0 and a width computed from \<open>img_width = 0\<close> and
  \<open>img_height = 0\<close>: the width is \<open>NotFinite\<close>, which \<open>fixed_width\<close> gives
  for a zero divisor only (\<open>fixed_width_NotFinite\<close>).
\<close>

theorem empty_directory_divides_by_zero:
  "ShowImageSubwindow demo_frame ''T'' ''empty'' (-1) 250 initial_statics =
     Inr (\<lparr>image_files = [], last_directory = ''empty'', current_image_index = 0,
           texture = 0, img_width = 0, img_height = 0\<rparr>,
          [GetImageFilesCall ''empty'', BeginChild ''T'' (400, 250),
           ImGuiImage 0 NotFinite 150, AddRect, Button ''<-'', Button ''->'',
           Text ''T'', EndChild])"
  by (simp add: demo_defs run_defs)

text \<open>
  Claim C6, as amended. When no file system query fails, \<open>GetImageFiles\<close> returns, in
  enumeration order, the path of every regular file of the directory whose name ends in
  \<open>.png\<close>, \<open>.jpg\<close> or \<open>.jpeg\<close> (compared character by character, so case
  matters) and nothing else, and the empty list when the directory does not exist or is not
  a directory. When \<open>exists\<close>, \<open>is_directory\<close>, the iteration or an entry's
  \<open>is_regular_file\<close> throws, the exception leaves \<open>GetImageFiles\<close>.
\<close>

theorem GetImageFiles_exact:
  "GetImageFiles fs D =
     (if examination_fails fs D then Inl FilesystemError
      else if \<not> existing_directory fs D then Inr []
      else if iteration_fails (directory_iterator fs D) then Inl FilesystemError
      else Inr (map (\<lambda>e. path_append D (entry_name e))
                  (filter (\<lambda>e. is_regular_file e = Some True
                                \<and> has_recognized_suffix (entry_name e))
                     (delivered_entries (directory_iterator fs D)))))"
  by (auto simp: GetImageFiles_def examination_fails_def existing_directory_def
      scan_entries_filter split: option.splits)

theorem GetImageFiles_exact_witness:
  "GetImageFiles demo_disk ''pics'' = Inr [''pics/a.png'', ''pics/b.jpg'']
   \<and> GetImageFiles demo_disk ''nowhere'' = Inr []
   \<and> GetImageFiles demo_disk ''notes.txt'' = Inr []
   \<and> GetImageFiles demo_disk ''empty'' = Inr []"
  using GetImageFiles_exact [of demo_disk "''pics''"]
    GetImageFiles_exact [of demo_disk "''nowhere''"]
    GetImageFiles_exact [of demo_disk "''notes.txt''"]
    GetImageFiles_exact [of demo_disk "''empty''"]
  by (simp add: demo_disk_def examination_fails_def existing_directory_def iteration_fails_def
      delivered_entries_def List.map_filter_simps has_recognized_suffix_def
      recognized_suffixes_def path_append_def suffix_to_prefix)

text \<open>
  Claim C6 as stated has the scan never signal an error. On a directory that exists and
  cannot be opened the iterator throws, and on a name that the system refuses to look up
  (one that is too long names no file) \<open>exists\<close> throws: the scan ends in the exception,
  not in the empty list, and so does the call of \<open>ShowImageSubwindow\<close> that asked for it.
\<close>

theorem scan_throws_counterexample:
  "GetImageFiles demo_disk ''locked'' = Inl FilesystemError
   \<and> GetImageFiles demo_disk ''overlong'' = Inl FilesystemError
   \<and> ShowImageSubwindow demo_frame ''T'' ''locked'' (-1) 250 initial_statics
       = Inl FilesystemError"
  by (simp add: demo_defs run_defs)

text \<open>
  Claim C7, as amended. The statics are shared by all calls whatever their title: giving the
  calls of any sequence other titles does not change the statics the sequence ends with, or
  whether it faults.
\<close>

theorem titles_do_not_separate_state:
  "map_sum id fst (calls (map (\<lambda>c. c\<lparr>call_title := f c\<rparr>) cs) s) = map_sum id fst (calls cs s)"
proof (induction cs arbitrary: s)
  case Nil
  show ?case by simp
next
  case (Cons c cs)
  let ?A = "ShowImageSubwindow (call_frame c) (f c) (call_directory c) (call_width c) (call_height c) s"
  let ?B = "ShowImageSubwindow (call_frame c) (call_title c) (call_directory c) (call_width c) (call_height c) s"
  have ab: "map_sum id fst ?A = map_sum id fst ?B"
    by (rule ShowImageSubwindow_state_ignores_title)
  show ?case
  proof (cases ?B)
    case (Inl fl)
    with ab have "?A = Inl fl" by (cases ?A) auto
    with Inl show ?thesis by simp
  next
    case (Inr x)
    then obtain s1 e1 where b: "?B = Inr (s1, e1)" by (cases x) auto
    with ab obtain e1' where a: "?A = Inr (s1, e1')" by (cases ?A) auto
    from Cons.IH [of s1] a b show ?thesis
      by (cases "calls cs s1"; cases "calls (map (\<lambda>c. c\<lparr>call_title := f c\<rparr>) cs) s1")
        (auto split: prod.splits)
  qed
qed

theorem titles_do_not_separate_state_witness:
  "map_sum id fst (calls [demo_call ''A'' ''pics'' True, demo_call ''B'' ''pics'' False] initial_statics)
   = map_sum id fst (calls [demo_call ''T'' ''pics'' True, demo_call ''T'' ''pics'' False] initial_statics)"
  using titles_do_not_separate_state
    [where f = "\<lambda>c. ''T''" and s = initial_statics
       and cs = "[demo_call ''A'' ''pics'' True, demo_call ''B'' ''pics'' False]"]
  by (simp add: demo_call_def)

text \<open>
  Claim C7 as stated keeps the state of two titles apart. A call under title \<open>A\<close> with
  a click on next moves the index to 1; the following call under title \<open>B\<close> reads that
  index: it decodes and shows the second file, and ends with index 1, where a call under
  \<open>B\<close> alone ends with index 0.
\<close>

theorem titles_share_state_counterexample:
  "calls [demo_call ''A'' ''pics'' True, demo_call ''B'' ''pics'' False] initial_statics =
     Inr (\<lparr>image_files = [''pics/a.png'', ''pics/b.jpg''], last_directory = ''pics'',
           current_image_index = 1, texture = 7, img_width = 4, img_height = 2\<rparr>,
          [GetImageFilesCall ''pics'', StbiLoad ''pics/a.png'' (Pixels 4 2), GlGenTextures 7,
           GlTexImage2D 7 4 2, StbiImageFree, BeginChild ''A'' (400, 250),
           ImGuiImage 7 (Finite 300) 150, AddRect, Button ''<-'', Button ''->'',
           GlDeleteTextures 7, Text ''A'', Text ''Current media: pics/b.jpg'', EndChild,
           StbiLoad ''pics/b.jpg'' (Pixels 4 2), GlGenTextures 7, GlTexImage2D 7 4 2, StbiImageFree,
           BeginChild ''B'' (400, 250), ImGuiImage 7 (Finite 300) 150, AddRect,
           Button ''<-'', Button ''->'', Text ''B'', Text ''Current media: pics/b.jpg'',
           EndChild])
   \<and> map_sum id (current_image_index \<circ> fst)
       (calls [demo_call ''B'' ''pics'' False] initial_statics) = Inr 0"
  by (simp add: demo_defs run_defs)

text \<open>
  Claim C8. Previous at index 0, and next at the last index, leave the statics as they are
  and delete no texture; the whole call, its trace included, is the one without the click,
  so the following frame reloads nothing.
\<close>

theorem navigation_at_the_ends_is_a_no_op:
  "(current_image_index s = 0 \<longrightarrow>
      press_prev s = (s, [])
      \<and> ShowImageSubwindow (fr\<lparr>prev_clicked := True, next_clicked := n\<rparr>) t d w h s =
        ShowImageSubwindow (fr\<lparr>prev_clicked := False, next_clicked := n\<rparr>) t d w h s)
   \<and> (current_image_index s + 1 = length (image_files s) \<longrightarrow> press_next s = (s, []))
   \<and> ((\<forall>s1 e1. rescan fr d s = Inr (s1, e1) \<longrightarrow>
              current_image_index s + 1 = length (image_files s1)) \<longrightarrow>
      ShowImageSubwindow (fr\<lparr>prev_clicked := False, next_clicked := True\<rparr>) t d w h s =
      ShowImageSubwindow (fr\<lparr>prev_clicked := False, next_clicked := False\<rparr>) t d w h s)"
  by (simp add: prev_at_first next_at_last ShowImageSubwindow_prev_at_first
      ShowImageSubwindow_next_at_last)

theorem navigation_at_the_ends_is_a_no_op_witness:
  "current_image_index (browsing_pics\<lparr>current_image_index := 0\<rparr>) = 0
   \<and> press_prev (browsing_pics\<lparr>current_image_index := 0\<rparr>)
       = (browsing_pics\<lparr>current_image_index := 0\<rparr>, [])
   \<and> ShowImageSubwindow (demo_frame\<lparr>prev_clicked := True, next_clicked := False\<rparr>)
         ''T'' ''pics'' (-1) 250 (browsing_pics\<lparr>current_image_index := 0\<rparr>)
     = ShowImageSubwindow (demo_frame\<lparr>prev_clicked := False, next_clicked := False\<rparr>)
         ''T'' ''pics'' (-1) 250 (browsing_pics\<lparr>current_image_index := 0\<rparr>)
   \<and> current_image_index browsing_pics + 1 = length (image_files browsing_pics)
   \<and> press_next browsing_pics = (browsing_pics, [])
   \<and> rescan demo_frame ''pics'' browsing_pics = Inr (browsing_pics, [])
   \<and> ShowImageSubwindow (demo_frame\<lparr>prev_clicked := False, next_clicked := True\<rparr>)
         ''T'' ''pics'' (-1) 250 browsing_pics
     = ShowImageSubwindow (demo_frame\<lparr>prev_clicked := False, next_clicked := False\<rparr>)
         ''T'' ''pics'' (-1) 250 browsing_pics"
  using navigation_at_the_ends_is_a_no_op
      [where s = "browsing_pics\<lparr>current_image_index := 0\<rparr>" and fr = demo_frame
         and n = False and t = "''T''" and d = "''pics''" and w = "-1" and h = 250]
    navigation_at_the_ends_is_a_no_op
      [where s = browsing_pics and fr = demo_frame
         and n = False and t = "''T''" and d = "''pics''" and w = "-1" and h = 250]
  by (simp add: browsing_pics_def rescan_def)

text \<open>
  Claim C9, as amended. \<open>getDataPath\<close> examines the bundle's resources (when the path of
  the executable is known), \<open>data\<close> under the working directory and the three system-wide
  paths, in this order, and returns the first that is an existing directory, and
  \<open>data\<close> under the working directory when there is none; this when the working
  directory is known and no examination fails. In general the search stops at the first
  location that is an existing directory or whose examination fails, and in the second case,
  or when \<open>current_path\<close> throws, the exception leaves \<open>getDataPath\<close>: no later
  location is tried.
\<close>

theorem getDataPath_first_existing:
  "(current_path e = Some cwd
      \<and> list_all (\<lambda>p. \<not> examination_fails (files e) p)
            (bundle_location e @ working_directory_locations cwd) \<longrightarrow>
    getDataPath e =
      Inr (case find (existing_directory (files e))
                  (bundle_location e @ working_directory_locations cwd) of
             Some p \<Rightarrow> p
           | None \<Rightarrow> path_append cwd ''data''))
   \<and> getDataPath e =
       (case first_stop (files e) (bundle_location e) of
          Some p \<Rightarrow> stop_result (files e) p
        | None \<Rightarrow>
            (case current_path e of
               None \<Rightarrow> Inl FilesystemError
             | Some wd \<Rightarrow>
                 (case first_stop (files e) (working_directory_locations wd) of
                    Some p \<Rightarrow> stop_result (files e) p
                  | None \<Rightarrow> Inr (path_append wd ''data''))))"
  using getDataPath_without_failure [of e cwd] getDataPath_search [of e] by blast

theorem getDataPath_first_existing_witness:
  "getDataPath (demo_path_env [''/Applications/app.app/Contents/Resources/data'',
                               ''/home/user/data''] [])
     = Inr ''/Applications/app.app/Contents/Resources/data''
   \<and> getDataPath (demo_path_env [''/home/user/data'',
                                 ''/usr/local/share/cmake_imgui_app_macos/data''] [])
     = Inr ''/home/user/data''
   \<and> getDataPath (demo_path_env [''/opt/local/share/cmake_imgui_app_macos/data'',
                                 ''/usr/share/cmake_imgui_app_macos/data''] [])
     = Inr ''/opt/local/share/cmake_imgui_app_macos/data''
   \<and> getDataPath (demo_path_env [''/usr/share/cmake_imgui_app_macos/data''] [])
     = Inr ''/usr/share/cmake_imgui_app_macos/data''
   \<and> getDataPath (demo_path_env [] []) = Inr ''/home/user/data''
   \<and> getDataPath ((demo_path_env [''/usr/local/share/cmake_imgui_app_macos/data''] [])
         \<lparr>executable_path := None\<rparr>)
     = Inr ''/usr/local/share/cmake_imgui_app_macos/data''"
  using
    getDataPath_first_existing
      [of "demo_path_env [''/Applications/app.app/Contents/Resources/data'',
                          ''/home/user/data''] []" "''/home/user''"]
    getDataPath_first_existing
      [of "demo_path_env [''/home/user/data'',
                          ''/usr/local/share/cmake_imgui_app_macos/data''] []" "''/home/user''"]
    getDataPath_first_existing
      [of "demo_path_env [''/opt/local/share/cmake_imgui_app_macos/data'',
                          ''/usr/share/cmake_imgui_app_macos/data''] []" "''/home/user''"]
    getDataPath_first_existing
      [of "demo_path_env [''/usr/share/cmake_imgui_app_macos/data''] []" "''/home/user''"]
    getDataPath_first_existing [of "demo_path_env [] []" "''/home/user''"]
    getDataPath_first_existing
      [of "(demo_path_env [''/usr/local/share/cmake_imgui_app_macos/data''] [])
             \<lparr>executable_path := None\<rparr>" "''/home/user''"]
  by (simp add: demo_path_env_def bundle_location_def working_directory_locations_def
      examination_fails_def existing_directory_def path_append_def)

text \<open>
  Claim C9 as stated has the resolver return the first existing directory. Where
  \<open>data\<close> under the working directory cannot be examined, the first existing directory
  of the order is the first system-wide path (the bundle has no resources), and the resolver
  does not return it: \<open>exists\<close> throws at line 54. Likewise when there is no working
  directory to ask for.
\<close>

theorem getDataPath_throws_counterexample:
  "getDataPath (demo_path_env [''/usr/local/share/cmake_imgui_app_macos/data'']
                  [''/home/user/data''])
     = Inl FilesystemError
   \<and> find (existing_directory
             (files (demo_path_env [''/usr/local/share/cmake_imgui_app_macos/data'']
                       [''/home/user/data''])))
         [''/Applications/app.app/Contents/Resources/data'', ''/home/user/data'',
          ''/usr/local/share/cmake_imgui_app_macos/data'',
          ''/opt/local/share/cmake_imgui_app_macos/data'',
          ''/usr/share/cmake_imgui_app_macos/data'']
     = Some ''/usr/local/share/cmake_imgui_app_macos/data''
   \<and> getDataPath ((demo_path_env [''/usr/local/share/cmake_imgui_app_macos/data''] [])
         \<lparr>current_path := None\<rparr>)
     = Inl FilesystemError"
  by (simp add: demo_path_env_def getDataPath_def getDataPath_from_cwd_def is_dir_def
      existing_directory_def path_append_def systemPaths_def Let_def)

text \<open>
  Claim C10. A call with the stored directory, no click and a held texture leaves the statics
  unchanged and neither scans, decodes, creates nor deletes anything. (The index is within
  the list, or the list is empty: otherwise the caption reads past the end of the vector.)
\<close>

theorem idle_frame_changes_nothing:
  assumes "last_directory s = d" and "texture s \<noteq> 0"
    and "\<not> prev_clicked fr" and "\<not> next_clicked fr"
    and "image_files s = [] \<or> current_image_index s < length (image_files s)"
  shows "\<exists>ev. ShowImageSubwindow fr t d w h s = Inr (s, ev) \<and> \<not> list_ex is_resource_event ev"
proof -
  from assms(5) obtain e5 where c: "caption t s = Inr e5" and q: "\<not> list_ex is_resource_event e5"
    using caption_ok by blast
  from assms(1) have r: "rescan fr d s = Inr (s, [])" by (simp add: rescan_def)
  from assms(2) have l: "load_texture fr s = Inr (True, s, [])" by (simp add: load_texture_def)
  from assms(3,4) have n: "nav_buttons (prev_clicked fr) (next_clicked fr) s
      = (s, [Button ''<-'', Button ''->''])"
    by (simp add: nav_buttons_def)
  have "ShowImageSubwindow fr t d w h s
      = Inr (s, draw_image fr t w h s @ [Button ''<-'', Button ''->''] @ e5)"
    by (simp add: ShowImageSubwindow_def r l n c)
  moreover have "\<not> list_ex is_resource_event (draw_image fr t w h s @ [Button ''<-'', Button ''->''] @ e5)"
    using q by (simp add: draw_image_def)
  ultimately show ?thesis by blast
qed

theorem idle_frame_changes_nothing_witness:
  "last_directory browsing_pics = ''pics'' \<and> texture browsing_pics \<noteq> 0
   \<and> \<not> prev_clicked demo_frame \<and> \<not> next_clicked demo_frame
   \<and> current_image_index browsing_pics < length (image_files browsing_pics)
   \<and> (\<exists>ev. ShowImageSubwindow demo_frame ''T'' ''pics'' (-1) 250 browsing_pics
            = Inr (browsing_pics, ev) \<and> \<not> list_ex is_resource_event ev)"
  using idle_frame_changes_nothing [where s = browsing_pics and d = "''pics''" and fr = demo_frame
      and t = "''T''" and w = "-1" and h = 250]
  by (simp add: browsing_pics_def demo_frame_def)

end
